theory Spec2Isabelle
  imports Main
begin

section \<open>Python strings\<close>

text \<open>
  Both scripts read and write their files with the UTF-8 encoding.  A Python \<open>str\<close> is
  modelled by the \<^typ>\<open>string\<close> of its UTF-8 bytes: every delimiter, alias, keyword and markup
  tag of the scripts is ASCII, and an ASCII byte never occurs inside the encoding of another
  code point, so splitting, searching and replacing give the same result on bytes as on
  code points.  The two operations that count code points (\<open>s[1:]\<close> and \<open>len\<close>) are written
  out below to step over a whole encoded code point.

  The micro sign U+00B5 and the superscript two U+00B2 of the unit labels:
\<close>

definition mu :: string where
  "mu = [CHR 0xC2, CHR 0xB5]"

definition sq :: string where
  "sq = [CHR 0xC2, CHR 0xB2]"

definition is_cont :: "char \<Rightarrow> bool" where
  \<comment> \<open>a UTF-8 continuation byte, \<open>0x80 .. 0xBF\<close>\<close>
  "is_cont c = (digit7 c \<and> \<not> digit6 c)"

definition py_tail :: "string \<Rightarrow> string" where
  \<comment> \<open>\<open>s[1:]\<close>: the string without its first code point\<close>
  "py_tail s = (case s of [] \<Rightarrow> [] | c # cs \<Rightarrow> dropWhile is_cont cs)"

definition py_len :: "string \<Rightarrow> nat" where
  \<comment> \<open>\<open>len(s)\<close>: the number of code points\<close>
  "py_len s = length (filter (\<lambda>c. \<not> is_cont c) s)"

primrec startswith :: "string \<Rightarrow> string \<Rightarrow> bool" where
  \<comment> \<open>\<open>s.startswith(p)\<close>, written \<open>startswith p s\<close>\<close>
  "startswith [] s = True"
| "startswith (p # ps) s = (case s of [] \<Rightarrow> False | c # cs \<Rightarrow> p = c \<and> startswith ps cs)"

definition endswith :: "string \<Rightarrow> string \<Rightarrow> bool" where
  "endswith p s = startswith (rev p) (rev s)"

fun replace :: "string \<Rightarrow> string \<Rightarrow> string \<Rightarrow> string" where
  \<comment> \<open>\<open>s.replace(old, new)\<close>, written \<open>replace old new s\<close>: every occurrence of \<open>old\<close>,
      leftmost first and without overlap.  For the empty \<open>old\<close> Python inserts \<open>new\<close>
      before every character and at the end.\<close>
  "replace old new [] = (if old = [] then new else [])"
| "replace old new (c # cs) =
     (if old = [] then new @ c # replace old new cs
      else if startswith old (c # cs) then new @ replace old new (drop (length old - 1) cs)
      else c # replace old new cs)"

fun split_on :: "(char \<Rightarrow> bool) \<Rightarrow> string \<Rightarrow> string list" where
  \<comment> \<open>\<open>re.split\<close> with a pattern that is an alternation of single characters: the pieces
      between the delimiters, empty pieces included; never the empty list.\<close>
  "split_on P [] = [[]]"
| "split_on P (c # cs) =
     (if P c then [] # split_on P cs
      else (case split_on P cs of [] \<Rightarrow> [[c]] | t # ts \<Rightarrow> (c # t) # ts))"

definition lower_char :: "char \<Rightarrow> char" where
  "lower_char c =
     (case map_of (zip ''ABCDEFGHIJKLMNOPQRSTUVWXYZ'' ''abcdefghijklmnopqrstuvwxyz'') c of
        Some d \<Rightarrow> d
      | None \<Rightarrow> c)"

definition lower :: "string \<Rightarrow> string" where
  \<comment> \<open>\<open>s.lower()\<close>.  Python also maps the cased code points beyond ASCII.  The lowered
      tokens are only compared with the keywords of \<open>guess_keywords\<close>, which are ASCII
      and contain no \<open>k\<close>; the lower-case form of a code point beyond ASCII is either
      not ASCII, or \<open>k\<close> (for the Kelvin sign), or \<open>i\<close> followed by a combining dot, so a
      token with such a code point equals no keyword before or after the mapping.\<close>
  "lower s = map lower_char s"

fun join :: "string \<Rightarrow> string list \<Rightarrow> string" where
  \<comment> \<open>\<open>sep.join(xs)\<close>\<close>
  "join sep [] = []"
| "join sep [x] = x"
| "join sep (x # y # ys) = x @ sep @ join sep (y # ys)"

definition fromkeys :: "'a list \<Rightarrow> 'a list" where
  \<comment> \<open>\<open>list(dict.fromkeys(xs))\<close>: the keys of an insertion-ordered dictionary into which
      the elements of \<open>xs\<close> are stored one after the other\<close>
  "fromkeys xs = fold (\<lambda>x ks. if x \<in> set ks then ks else ks @ [x]) xs []"


section \<open>Unit inference: \<open>pick_units\<close>\<close>

text \<open>The dictionaries of \<open>pick_units\<close>, in the order of their literals (a Python 3
  dictionary iterates in insertion order).\<close>

definition no_unit_values :: "(string \<times> string) list" where
  "no_unit_values = [(''N/A'', ''N/A''), ('''', '''')]"

definition desc_picks :: "(string \<times> string list) list" where
  "desc_picks =
    [(''deg'', [''degrees'', ''deg'', ''[deg]'', ''(deg)'']),
     (''mm'', [''mm'', ''[mm]'', ''(mm)'']),
     (''mm'' @ sq, [''mm2'', ''[mm2]'', ''(mm2)'', ''mm^2'', ''[mm^2]'', ''(mm^2)'', ''mmsq'']),
     (mu @ ''m'', [''um'', ''[um]'', ''(um)'']),
     (mu @ ''m'' @ sq, [''um2'', ''[um2]'', ''(um2)'', ''um^2'', ''[um^2]'', ''(um^2)'', ''umsq'']),
     (''nm'', [''nm'', ''[nm]'', ''(nm)''])]"

definition guess_keywords :: "(string \<times> string list) list" where
  "guess_keywords =
    [(''deg'', [''angle'', ''angles'']),
     (mu @ ''m'', [''length'', ''width'', ''space'', ''spacing'', ''distance'', ''enclosure'',
                   ''enclosed'', ''step'', ''l'', ''w'', ''differ'', ''size'', ''within'']),
     (mu @ ''m'' @ sq, [''area'']),
     ([CHR 0x5C, CHR ''-''], [''density''])]"

definition strong_guess_limit :: nat where
  "strong_guess_limit = 2"

definition is_delim :: "char \<Rightarrow> bool" where
  \<comment> \<open>the pattern \<open>' |_|,|\.|\:|\n|\||"'\<close>\<close>
  "is_delim c = (c \<in> set [CHR '' '', CHR ''_'', CHR '','', CHR ''.'', CHR '':'', CHR 0x0A,
                             CHR ''|'', CHR 0x22])"

definition tokens :: "string \<Rightarrow> string list" where
  "tokens rdesc = split_on is_delim rdesc"

definition alias_step :: "string list \<Rightarrow> string \<Rightarrow> string \<Rightarrow> string list \<times> string \<Rightarrow> string list \<times> string" where
  \<comment> \<open>the body of the inner loop over the aliases of the unit \<open>u\<close>\<close>
  "alias_step desc_search u alias st =
     (case st of (unit, rdesc) \<Rightarrow>
        if alias \<in> set desc_search
        then (unit @ [u],
              if alias = last desc_search then replace alias [] rdesc else replace alias u rdesc)
        else (unit, rdesc))"

definition alias_scan :: "string list \<Rightarrow> string \<Rightarrow> string list \<times> string" where
  \<comment> \<open>the two loops over \<open>desc_picks\<close>, from the empty candidate list\<close>
  "alias_scan desc_search rdesc =
     fold (\<lambda>(u, aliases) st. fold (alias_step desc_search u) aliases st) desc_picks ([], rdesc)"

definition guess_step :: "string list \<Rightarrow> string \<Rightarrow> string \<Rightarrow> string list \<Rightarrow> string list" where
  \<comment> \<open>the body of the inner loop over the keywords of the unit \<open>u\<close>: the strong guess,
      then the regular guess\<close>
  "guess_step desc_search u k unit =
     (let unit1 = (if k \<in> set (take strong_guess_limit desc_search)
                      \<and> py_tail u \<notin> set (map py_tail unit)
                   then [u] else unit)
      in if unit1 = [] \<and> k \<in> set desc_search then [u] else unit1)"

definition guess :: "string list \<Rightarrow> string list \<Rightarrow> string list" where
  \<comment> \<open>the two loops over \<open>guess_keywords\<close>; \<open>desc_search\<close> is already lower-cased\<close>
  "guess desc_search unit =
     fold (\<lambda>(u, ks) un. fold (guess_step desc_search u) ks un) guess_keywords unit"

definition candidates :: "string \<Rightarrow> string list" where
  \<comment> \<open>the list \<open>unit\<close> when the loops are over (\<open>allow_guessing\<close> is the constant True)\<close>
  "candidates rdesc =
     guess (map lower (tokens rdesc)) (fst (alias_scan (tokens rdesc) rdesc))"

definition pick_units :: "string \<Rightarrow> string \<Rightarrow> string \<times> string" where
  "pick_units rdesc rvalue =
     (case map_of no_unit_values rvalue of
        Some v \<Rightarrow> (v, rdesc)
      | None \<Rightarrow>
          (join '' '' (fromkeys (candidates rdesc)), snd (alias_scan (tokens rdesc) rdesc)))"

text \<open>Predicates on the token list, used to state when the loops of \<open>pick_units\<close> find
  something: an alias of \<open>desc_picks\<close> is a token; a keyword of \<open>guess_keywords\<close> is a
  token; \<open>k0\<close> is the only keyword that is a token; the condition of the strong guess holds
  for some keyword against the candidate list \<open>unit\<close>; and the units of \<open>desc_picks\<close> that
  have an alias among the tokens, in the order of the dictionary.\<close>

definition alias_found :: "string list \<Rightarrow> bool" where
  "alias_found ds = (\<exists>(u, as)\<in>set desc_picks. \<exists>a\<in>set as. a \<in> set ds)"

definition keyword_found :: "string list \<Rightarrow> bool" where
  "keyword_found ds = (\<exists>(u, ks)\<in>set guess_keywords. \<exists>k\<in>set ks. k \<in> set ds)"

definition only_keyword :: "string \<Rightarrow> string list \<Rightarrow> bool" where
  "only_keyword k0 ds =
     (k0 \<in> set ds \<and> (\<forall>(u, ks)\<in>set guess_keywords. \<forall>k\<in>set ks. k \<in> set ds \<longrightarrow> k = k0))"

definition strong_applies :: "string list \<Rightarrow> string list \<Rightarrow> bool" where
  "strong_applies ds unit =
     (\<exists>(u, ks)\<in>set guess_keywords. \<exists>k\<in>set ks.
        k \<in> set (take strong_guess_limit ds) \<and> py_tail u \<notin> set (map py_tail unit))"

definition matched_units :: "string list \<Rightarrow> string list" where
  "matched_units ds = map fst (filter (\<lambda>(u, as). \<exists>a\<in>set as. a \<in> set ds) desc_picks)"

section \<open>Searching and slicing\<close>

primrec find :: "string \<Rightarrow> string \<Rightarrow> nat option" where
  \<comment> \<open>\<open>s.find(sub)\<close>, written \<open>find sub s\<close>: the lowest index where \<open>sub\<close> starts in \<open>s\<close>;
      \<open>None\<close> is Python's \<open>-1\<close>\<close>
  "find sub [] = (if sub = [] then Some 0 else None)"
| "find sub (c # cs) =
     (if startswith sub (c # cs) then Some 0 else map_option Suc (find sub cs))"

definition find_from :: "string \<Rightarrow> nat \<Rightarrow> string \<Rightarrow> nat option" where
  \<comment> \<open>\<open>s.find(sub, start)\<close>, written \<open>find_from sub start s\<close>\<close>
  "find_from sub start s =
     (if length s < start then None
      else map_option (\<lambda>i. start + i) (find sub (drop start s)))"

definition slice :: "nat \<Rightarrow> nat \<Rightarrow> string \<Rightarrow> string" where
  \<comment> \<open>\<open>s[a:b]\<close> for indices that are not negative, written \<open>slice a b s\<close>\<close>
  "slice a b s = take (b - a) (drop a s)"

definition slice_to_end :: "nat \<Rightarrow> nat \<Rightarrow> string \<Rightarrow> string" where
  \<comment> \<open>\<open>s[a:-b]\<close> for \<open>b > 0\<close>, written \<open>slice_to_end a b s\<close>\<close>
  "slice_to_end a b s = slice a (length s - b) s"


section \<open>Markup rewriting: \<open>subscript-to-math.py\<close>\<close>

subsection \<open>\<open>patch_sub\<close> and \<open>strip_math\<close>\<close>

definition bs :: char where
  \<comment> \<open>the backslash\<close>
  "bs = CHR 0x5C"

definition patch_sub :: "string \<Rightarrow> string" where
  \<comment> \<open>the argument is \<open>matchobj.group(0)\<close>\<close>
  "patch_sub g =
     (let s = replace [bs, CHR '' ''] [] (replace ''`'' [] g)
      in case find '':sub:'' s of
           None \<Rightarrow> s
         | Some i \<Rightarrow>
             (let head = take i s;
                  tail = drop (i + 5) s;
                  tail = (if py_len tail > 1 then ''{'' @ tail @ ''}'' else tail)
              in '':math:`'' @ head @ ''_'' @ tail @ ''`''))"

definition math_tag :: string where
  "math_tag = '':math:`''"

definition strip_step :: "string \<Rightarrow> string option" where
  \<comment> \<open>one iteration of the loop of \<open>strip_math\<close>: \<open>None\<close> when the iteration returns \<open>s\<close>,
      otherwise the new value of \<open>s\<close>\<close>
  "strip_step s =
     (case find math_tag s of
        None \<Rightarrow> None
      | Some start \<Rightarrow>
          (case find_from ''`'' (start + length math_tag) s of
             None \<Rightarrow> None
           | Some stop \<Rightarrow>
               Some (take start s @ slice (start + length math_tag) stop s @ drop (stop + 1) s)))"

partial_function (option) strip_math :: "string \<Rightarrow> string option" where
  \<comment> \<open>the \<open>while True\<close> loop; \<open>None\<close> would be a loop that never returns\<close>
  "strip_math s = (case strip_step s of None \<Rightarrow> Some s | Some s' \<Rightarrow> strip_math s')"

subsection \<open>Regular expressions\<close>

text \<open>
  The patterns of \<open>patch_subscript\<close> are built from literal text, character classes, the
  classes \<open>\w\<close> and \<open>\s\<close>, the dot, optional groups, and the repetitions \<open>*\<close>, \<open>+\<close> and
  \<open>+?\<close> of one class.  Python matches code points, so the subject is first cut into its code
  points.  What \<open>\w\<close> and \<open>\s\<close> (and \<open>strip\<close>) accept beyond ASCII is decided by the Unicode
  tables of the interpreter; they are a parameter here.
\<close>

function cps :: "string \<Rightarrow> string list" where
  \<comment> \<open>the code points of a string, each as its bytes\<close>
  "cps [] = []"
| "cps (c # cs) = (c # takeWhile is_cont cs) # cps (dropWhile is_cont cs)"
  by pat_completeness auto
termination
  by (relation "measure length") (auto simp: length_dropWhile_le less_Suc_eq_le)

record unicode =
  u_word :: "string \<Rightarrow> bool"   \<comment> \<open>the code point beyond ASCII is alphanumeric\<close>
  u_space :: "string \<Rightarrow> bool"  \<comment> \<open>the code point beyond ASCII is white space\<close>

definition is_ascii :: "string \<Rightarrow> bool" where
  "is_ascii cp = (case cp of [c] \<Rightarrow> \<not> digit7 c | _ \<Rightarrow> False)"

definition is_word :: "unicode \<Rightarrow> string \<Rightarrow> bool" where
  \<comment> \<open>\<open>\w\<close>\<close>
  "is_word U cp =
     (if is_ascii cp
      then cp \<in> set (map (\<lambda>c. [c])
             ''abcdefghijklmnopqrstuvwxyzABCDEFGHIJKLMNOPQRSTUVWXYZ0123456789_'')
      else u_word U cp)"

definition is_space :: "unicode \<Rightarrow> string \<Rightarrow> bool" where
  \<comment> \<open>\<open>\s\<close> and \<open>str.isspace\<close>: in ASCII the characters 9 to 13, 28 to 31 and the space\<close>
  "is_space U cp =
     (if is_ascii cp
      then cp \<in> set (map (\<lambda>c. [c])
             [CHR 0x09, CHR 0x0A, CHR 0x0B, CHR 0x0C, CHR 0x0D,
              CHR 0x1C, CHR 0x1D, CHR 0x1E, CHR 0x1F, CHR 0x20])
      else u_space U cp)"

datatype atom =
    OneOf "string list"    \<comment> \<open>\<open>[abc]\<close>, the code points listed\<close>
  | NoneOf "string list"   \<comment> \<open>\<open>[^abc]\<close>\<close>
  | Dot                    \<comment> \<open>\<open>.\<close>: any code point but the newline\<close>
  | WordCh                 \<comment> \<open>\<open>\w\<close>\<close>
  | SpaceCh                \<comment> \<open>\<open>\s\<close>\<close>

datatype rx =
    Str string             \<comment> \<open>literal text\<close>
  | Atom atom
  | Opt rx                 \<comment> \<open>\<open>(r)?\<close>\<close>
  | Star atom              \<comment> \<open>\<open>a*\<close>\<close>
  | Plus atom              \<comment> \<open>\<open>a+\<close>\<close>
  | PlusLazy atom          \<comment> \<open>\<open>a+?\<close>\<close>
  | Seq rx rx

definition seq :: "rx list \<Rightarrow> rx" where
  "seq rs = foldr Seq rs (Str [])"

fun atom_ok :: "unicode \<Rightarrow> atom \<Rightarrow> string \<Rightarrow> bool" where
  "atom_ok U (OneOf xs) cp = (cp \<in> set xs)"
| "atom_ok U (NoneOf xs) cp = (cp \<notin> set xs)"
| "atom_ok U Dot cp = (cp \<noteq> [CHR 0x0A])"
| "atom_ok U WordCh cp = is_word U cp"
| "atom_ok U SpaceCh cp = is_space U cp"

text \<open>
  A backtracking matcher: \<open>rmatch U r xs\<close> lists what may remain of the code points \<open>xs\<close>
  after a match of \<open>r\<close> at their start, in the order in which Python tries the
  alternatives (a greedy repetition the longest first, a lazy one the shortest first, an
  optional group first with the group).  The first element is the match Python returns.
\<close>

primrec star :: "unicode \<Rightarrow> atom \<Rightarrow> string list \<Rightarrow> string list list" where
  "star U a [] = [[]]"
| "star U a (x # xs) = (if atom_ok U a x then star U a xs @ [x # xs] else [x # xs])"

primrec plus_lazy :: "unicode \<Rightarrow> atom \<Rightarrow> string list \<Rightarrow> string list list" where
  "plus_lazy U a [] = []"
| "plus_lazy U a (x # xs) = (if atom_ok U a x then xs # plus_lazy U a xs else [])"

fun rmatch :: "unicode \<Rightarrow> rx \<Rightarrow> string list \<Rightarrow> string list list" where
  "rmatch U (Str t) xs =
     (if take (length (cps t)) xs = cps t then [drop (length (cps t)) xs] else [])"
| "rmatch U (Atom a) xs = (case xs of [] \<Rightarrow> [] | x # xs' \<Rightarrow> if atom_ok U a x then [xs'] else [])"
| "rmatch U (Opt r) xs = rmatch U r xs @ [xs]"
| "rmatch U (Star a) xs = star U a xs"
| "rmatch U (Plus a) xs =
     (case xs of [] \<Rightarrow> [] | x # xs' \<Rightarrow> if atom_ok U a x then star U a xs' else [])"
| "rmatch U (PlusLazy a) xs = plus_lazy U a xs"
| "rmatch U (Seq r1 r2) xs = concat (map (rmatch U r2) (rmatch U r1 xs))"

definition match_at :: "unicode \<Rightarrow> rx \<Rightarrow> string list \<Rightarrow> (string \<times> string list) option" where
  \<comment> \<open>the match at the start of \<open>xs\<close>: its text and the code points after it\<close>
  "match_at U r xs =
     (case rmatch U r xs of
        [] \<Rightarrow> None
      | rest # _ \<Rightarrow> Some (concat (take (length xs - length rest) xs), rest))"

fun search_cps :: "unicode \<Rightarrow> rx \<Rightarrow> string list \<Rightarrow> string option" where
  "search_cps U r [] = map_option fst (match_at U r [])"
| "search_cps U r (x # xs) =
     (case match_at U r (x # xs) of
        Some (g, _) \<Rightarrow> Some g
      | None \<Rightarrow> search_cps U r xs)"

definition re_search :: "unicode \<Rightarrow> rx \<Rightarrow> string \<Rightarrow> string option" where
  \<comment> \<open>\<open>re.search(r, s)\<close>: \<open>group(0)\<close> of the leftmost match, \<open>None\<close> when there is none\<close>
  "re_search U r s = search_cps U r (cps s)"

fun sub_cps :: "unicode \<Rightarrow> rx \<Rightarrow> (string \<Rightarrow> string) \<Rightarrow> string list \<Rightarrow> string" where
  "sub_cps U r f [] = (case match_at U r [] of None \<Rightarrow> [] | Some (g, _) \<Rightarrow> f g)"
| "sub_cps U r f (x # xs) =
     (case match_at U r (x # xs) of
        None \<Rightarrow> x @ sub_cps U r f xs
      | Some (g, rest) \<Rightarrow>
          if length rest \<le> length xs then f g @ sub_cps U r f rest
          else f g @ x @ sub_cps U r f xs)"

definition re_sub :: "unicode \<Rightarrow> rx \<Rightarrow> (string \<Rightarrow> string) \<Rightarrow> string \<Rightarrow> string" where
  \<comment> \<open>\<open>re.sub(r, f, s)\<close> with a function \<open>f\<close> of \<open>group(0)\<close>: the matches are replaced from
      left to right without overlap; an empty match is replaced and the next code point
      copied\<close>
  "re_sub U r f s = sub_cps U r f (cps s)"

definition strip :: "unicode \<Rightarrow> string \<Rightarrow> string" where
  \<comment> \<open>\<open>s.strip()\<close>\<close>
  "strip U s = concat (rev (dropWhile (is_space U) (rev (dropWhile (is_space U) (cps s)))))"

subsection \<open>The patterns of \<open>patch_subscript\<close>\<close>

definition bs_space :: rx where
  \<comment> \<open>the group \<open>(\\ )\<close>: a backslash and a space\<close>
  "bs_space = Str [bs, CHR '' '']"

definition bs_pipe :: rx where
  \<comment> \<open>the group \<open>(\\\|)\<close>: a backslash and a vertical bar\<close>
  "bs_pipe = Str [bs, CHR ''|'']"

definition digits :: "string list" where
  "digits = map (\<lambda>c. [c]) ''0123456789''"

definition sub_pat :: rx where
  \<comment> \<open>the pattern \<open>sub\<close>\<close>
  "sub_pat = seq [Plus WordCh, Opt bs_space, Str '':sub:`'', PlusLazy Dot, Str ''`'']"

definition math_pat :: rx where
  \<comment> \<open>the pattern \<open>math\<close>\<close>
  "math_pat = seq [Str '':math:`'', Star (NoneOf [''`'']), Str ''`'', Opt bs_space]"

definition unit_pat :: rx where
  \<comment> \<open>the pattern \<open>unit\<close>\<close>
  \<comment> \<open>the vertical bars inside the brackets are members of the classes; the ohm sign is
      U+2126\<close>
  "unit_pat = seq [Opt (Atom (OneOf [''f'', ''|'', ''p'', ''n'', mu, ''u'', ''m'', ''k''])),
               Atom (OneOf [''m'', ''|'', ''V'', ''A'', [CHR 0xE2, CHR 0x84, CHR 0xA6], ''F'', ''H'']),
               Opt (Atom (OneOf [sq]))]"

definition value_pat :: rx where
  \<comment> \<open>the pattern \<open>value\<close>\<close>
  "value_pat = seq [Opt (Atom (OneOf [''+'', ''-''])), Star (OneOf digits), Opt (Atom (OneOf [''.''])),
              Star (OneOf digits), Opt (seq [Opt (Atom SpaceCh), unit_pat])]"

definition bracedmath1 :: rx where
  "bracedmath1 = seq [Opt bs_pipe, math_pat, Opt bs_space, Opt bs_pipe]"

definition bracedmath2 :: rx where
  "bracedmath2 = seq [Opt (Atom (OneOf [''(''])), math_pat, Opt bs_space, Opt (Atom (OneOf ['')'']))]"

definition div_sub :: rx where
  "div_sub = seq [Opt bs_pipe, math_pat, Str ''/'', math_pat, Opt bs_space, Opt bs_pipe]"

definition diff_sub :: rx where
  \<comment> \<open>the dash of the class is the en dash U+2013\<close>
  "diff_sub = seq [Opt bs_pipe, math_pat, Opt (Atom SpaceCh),
                   Plus (OneOf [''+'', [CHR 0xE2, CHR 0x80, CHR 0x93], ''*'']), Atom SpaceCh,
                   math_pat, Opt bs_space, Opt bs_pipe]"

definition eq_sub :: rx where
  "eq_sub = seq [Opt bs_pipe, math_pat, Opt (Atom SpaceCh), Atom (OneOf [''='', ''|'', ''<'', ''>'']),
                 Opt (Atom SpaceCh), value_pat, Opt bs_pipe]"

subsection \<open>The body of the loop over the lines\<close>

datatype py_error = IndexError | FileNotFoundError | UnicodeDecodeError | ParseException

text \<open>
  A line is rewritten to \<open>Some (Inr line')\<close>; \<open>Some (Inl e)\<close> is the exception \<open>e\<close>, and
  \<open>None\<close> a call of \<open>strip_math\<close> that does not return.
\<close>

definition patch_template :: "unicode \<Rightarrow> rx \<Rightarrow> string \<Rightarrow> (py_error + string) option" where
  \<comment> \<open>the body of the loop over the templates.  \<open>line.find(m.group(0))\<close> always finds the
      matched text, which is a part of \<open>line\<close>; the branch \<open>None\<close> of \<open>find\<close> is never taken.
      \<open>line[i]\<close> raises \<open>IndexError\<close> when the match ends the line.\<close>
  "patch_template U template line =
     (case re_search U template line of
        None \<Rightarrow> Some (Inr line)
      | Some g \<Rightarrow>
          (let (patch, br) =
                 (if startswith [bs, CHR ''|''] g \<and> endswith [bs, CHR ''|''] g
                  then (slice_to_end 2 2 g, (''|'', ''|'')) else (g, ('''', '''')));
               (patch, br) =
                 (if startswith ''('' patch \<and> endswith '')'' patch
                  then (slice_to_end 1 1 patch, (''('', '')'')) else (patch, br));
               patch = replace ([bs] @ '' :sup:`2`'') ''^2'' patch;
               patch = strip U (replace [bs, CHR '' ''] [] patch);
               patch = strip U (replace ''to'' '' to '' patch)
           in case strip_math patch of
                None \<Rightarrow> None
              | Some patch \<Rightarrow>
                  (let patch =
                         (if template = div_sub
                          then '':math:`'' @ fst br @ [bs] @ ''frac{'' @ replace ''/'' ''}{'' patch
                               @ ''}'' @ snd br @ ''`''
                          else '':math:`'' @ fst br @ patch @ snd br @ ''`'')
                   in case find g line of
                        None \<Rightarrow> Some (Inl IndexError)
                      | Some i \<Rightarrow>
                          (let patch = (if i > 0 \<and> line ! (i - 1) \<noteq> CHR '' ''
                                        then [bs, CHR '' ''] @ patch else patch);
                               i = i + length g
                           in if length line \<le> i then Some (Inl IndexError)
                              else (let patch = (if line ! i \<notin> set [CHR '' '', bs, CHR 0x0A]
                                                 then patch @ [bs, CHR '' ''] else patch)
                                    in Some (Inr (replace g patch line)))))))"

fun patch_templates :: "unicode \<Rightarrow> rx list \<Rightarrow> string \<Rightarrow> (py_error + string) option" where
  "patch_templates U [] line = Some (Inr line)"
| "patch_templates U (t # ts) line =
     (case patch_template U t line of
        Some (Inr line') \<Rightarrow> patch_templates U ts line'
      | r \<Rightarrow> r)"

definition patch_line :: "unicode \<Rightarrow> string \<Rightarrow> (py_error + string) option" where
  \<comment> \<open>what the body of \<open>for line in f\<close> passes to \<open>of.write\<close>\<close>
  "patch_line U line =
     patch_templates U [div_sub, diff_sub, eq_sub, bracedmath1, bracedmath2]
       (re_sub U sub_pat patch_sub line)"

section \<open>Table rewriting: \<open>periphery-append-units-to-csv.py\<close>\<close>

subsection \<open>The body of the loop over the lines\<close>

text \<open>
  The fields of a line come from \<open>pyparsing.commaSeparatedList\<close>, a library that is not part
  of the repository.  The parser is a parameter \<open>P\<close> of the model: it returns the fields or
  raises.
\<close>

type_synonym parser = "string \<Rightarrow> py_error + string list"

definition ellipsis :: string where
  \<comment> \<open>the horizontal ellipsis U+2026\<close>
  "ellipsis = [CHR 0xE2, CHR 0x80, CHR 0xA6]"

definition esc_ellipsis :: string where
  \<comment> \<open>the literal \<open>'\...'\<close>: a backslash and three dots\<close>
  "esc_ellipsis = [bs] @ ''...''"

definition partition_head :: "string \<Rightarrow> string \<Rightarrow> string" where
  \<comment> \<open>\<open>l.partition(sep)[0]\<close>: what stands before the first \<open>sep\<close>, or all of \<open>l\<close>\<close>
  "partition_head sep l = (case find sep l of None \<Rightarrow> l | Some i \<Rightarrow> take i l)"

definition DescColumnNo :: nat where "DescColumnNo = 1"
definition ValColumnNo :: nat where "ValColumnNo = 3"
definition UnitColumnNo :: nat where "UnitColumnNo = 4"

definition passed_unparsed :: "string \<Rightarrow> bool" where
  \<comment> \<open>the first test of the loop: the line is written as it is, without parsing\<close>
  "passed_unparsed l = (find ''.-)'' l \<noteq> None \<or> startswith ''Note:'' l)"

definition row_rejected :: "string list \<Rightarrow> bool" where
  \<comment> \<open>the second test, on the fields of the line (never an empty list here)\<close>
  "row_rejected flds =
     (length flds \<noteq> UnitColumnNo \<or> endswith ''Errors'' (flds ! 0)
      \<or> flds ! 0 \<in> set ['''', [CHR 0x0A], ''Rule''])"

definition rewrite_line :: "parser \<Rightarrow> string \<Rightarrow> py_error + string" where
  \<comment> \<open>what the body of \<open>for l in open(infile)\<close> writes to the output, or the exception\<close>
  "rewrite_line P l =
     (if passed_unparsed l then Inr l
      else case P (replace ellipsis esc_ellipsis l) of
             Inl e \<Rightarrow> Inl e
           | Inr [] \<Rightarrow> Inl IndexError
           | Inr (f0 # fs) \<Rightarrow>
               (let flds = (if f0 = [] then partition_head '','' l # fs else f0 # fs);
                    flds = map (replace esc_ellipsis ellipsis) flds
                in if row_rejected flds then Inr l
                   else (let desc = flds ! DescColumnNo;
                             val = flds ! ValColumnNo;
                             (unit, d) = pick_units desc val;
                             flds = flds[DescColumnNo := d] @ [unit]
                         in Inr (join '','' flds @ [CHR 0x0A]))))"

subsection \<open>The files\<close>

text \<open>
  The files are a map from paths to their bytes.  The input is opened as text with the
  encoding \<open>utf8\<close>: the text layer of Python reads a chunk of bytes at a time and decodes
  it; bytes that are not UTF-8 raise \<open>UnicodeDecodeError\<close> when their chunk is decoded,
  that is after the lines that end in the chunks before it have been iterated, and a
  sequence cut by the end of a chunk waits for the next chunk.  The size of the chunk is
  fixed by the \<open>io\<close> library and the platform; it is the parameter \<open>n\<close> here.  A text file is
  iterated line by line, every line with its newline; \<open>\r\n\<close> and \<open>\r\<close> are read as \<open>\n\<close>,
  and a \<open>\r\<close> that ends a chunk waits for the next chunk too.
\<close>

type_synonym files = "string \<Rightarrow> string option"

definition byte :: "char \<Rightarrow> nat" where
  "byte c = of_char c"

definition in_range :: "nat \<Rightarrow> nat \<Rightarrow> char \<Rightarrow> bool" where
  "in_range lo hi c = (lo \<le> byte c \<and> byte c \<le> hi)"

definition second_ok :: "char \<Rightarrow> char \<Rightarrow> bool" where
  \<comment> \<open>the second byte \<open>c\<close> of a sequence of three or four bytes that starts with \<open>b\<close>: no
      overlong form, no surrogate, nothing beyond U+10FFFF\<close>
  "second_ok b c =
     (if byte b = 0xE0 then in_range 0xA0 0xBF c
      else if byte b = 0xED then in_range 0x80 0x9F c
      else if byte b = 0xF0 then in_range 0x90 0xBF c
      else if byte b = 0xF4 then in_range 0x80 0x8F c
      else in_range 0x80 0xBF c)"

fun utf8_decode :: "string \<Rightarrow> (string \<times> string) option" where
  \<comment> \<open>decoding a chunk that is not the last: \<open>None\<close> when a byte is not UTF-8, otherwise the
      text decoded (as its bytes) and the bytes of a last sequence that is not complete\<close>
  "utf8_decode [] = Some ([], [])"
| "utf8_decode (b # q) =
     (if byte b < 0x80 then map_option (\<lambda>(t, p). (b # t, p)) (utf8_decode q)
      else if in_range 0xC2 0xDF b then
        (case q of
           [] \<Rightarrow> Some ([], [b])
         | c # r \<Rightarrow>
             if is_cont c then map_option (\<lambda>(t, p). (b # c # t, p)) (utf8_decode r) else None)
      else if in_range 0xE0 0xEF b then
        (case q of
           [] \<Rightarrow> Some ([], [b])
         | c # r \<Rightarrow>
             if \<not> second_ok b c then None
             else (case r of
                     [] \<Rightarrow> Some ([], [b, c])
                   | d # r' \<Rightarrow>
                       if is_cont d
                       then map_option (\<lambda>(t, p). (b # c # d # t, p)) (utf8_decode r')
                       else None))
      else if in_range 0xF0 0xF4 b then
        (case q of
           [] \<Rightarrow> Some ([], [b])
         | c # r \<Rightarrow>
             if \<not> second_ok b c then None
             else (case r of
                     [] \<Rightarrow> Some ([], [b, c])
                   | d # r' \<Rightarrow>
                       if \<not> is_cont d then None
                       else (case r' of
                               [] \<Rightarrow> Some ([], [b, c, d])
                             | e # r'' \<Rightarrow>
                                 if is_cont e
                                 then map_option (\<lambda>(t, p). (b # c # d # e # t, p))
                                        (utf8_decode r'')
                                 else None)))
      else None)"

function decode_chunks :: "nat \<Rightarrow> string \<Rightarrow> string \<Rightarrow> string \<Rightarrow> string \<times> bool" where
  \<comment> \<open>\<open>decode_chunks n pend rest text\<close>: the chunks of \<open>rest\<close> are decoded one after the other,
      after the text \<open>text\<close> and the bytes \<open>pend\<close> of a sequence not yet complete.  The result
      is the text decoded and whether decoding has failed; at the end of the file a
      sequence that is not complete fails.  A chunk has at least one byte.\<close>
  "decode_chunks n pend rest text =
     (if rest = [] then (text, pend \<noteq> [])
      else case utf8_decode (pend @ take (max 1 n) rest) of
             None \<Rightarrow> (text, True)
           | Some (t, pend') \<Rightarrow> decode_chunks n pend' (drop (max 1 n) rest) (text @ t))"
  by pat_completeness auto
termination
  by (relation "measure (\<lambda>(n, pend, rest, text). length rest)") auto

declare decode_chunks.simps [simp del]

fun py_lines :: "string \<Rightarrow> string \<Rightarrow> string list" where
  \<comment> \<open>\<open>py_lines cur s\<close>: the lines of the text \<open>s\<close>, the first one after the characters
      \<open>cur\<close> already read; the last line may lack its newline\<close>
  "py_lines cur [] = (if cur = [] then [] else [cur])"
| "py_lines cur [c] =
     (if c = CHR 0x0A \<or> c = CHR 0x0D then [cur @ [CHR 0x0A]] else [cur @ [c]])"
| "py_lines cur (c # d # cs) =
     (if c = CHR 0x0D \<and> d = CHR 0x0A then (cur @ [CHR 0x0A]) # py_lines [] cs
      else if c = CHR 0x0A \<or> c = CHR 0x0D then (cur @ [CHR 0x0A]) # py_lines [] (d # cs)
      else py_lines (cur @ [c]) (d # cs))"

definition complete_lines :: "string \<Rightarrow> string list" where
  \<comment> \<open>the lines iterated before the next chunk is needed: those of the text that end with
      a newline, a last \<open>\r\<close> set aside\<close>
  "complete_lines text =
     (let t = (if text \<noteq> [] \<and> last text = CHR 0x0D then butlast text else text);
          ls = py_lines [] t
      in if t = [] \<or> last t = CHR 0x0A \<or> last t = CHR 0x0D then ls else butlast ls)"

definition read_lines :: "nat \<Rightarrow> string \<Rightarrow> string list \<times> py_error option" where
  \<comment> \<open>\<open>for l in open(infile, encoding='utf8')\<close>: the lines iterated and the exception that
      ends the iteration, if any\<close>
  "read_lines n content =
     (case decode_chunks n [] content [] of
        (text, failed) \<Rightarrow>
          if failed then (complete_lines text, Some UnicodeDecodeError)
          else (py_lines [] text, None))"

fun rewrite_lines :: "parser \<Rightarrow> string list \<Rightarrow> string \<Rightarrow> py_error option \<times> string" where
  \<comment> \<open>the loop: the exception that ended it, if any, and what has been written\<close>
  "rewrite_lines P [] written = (None, written)"
| "rewrite_lines P (l # ls) written =
     (case rewrite_line P l of
        Inl e \<Rightarrow> (Some e, written)
      | Inr out \<Rightarrow> rewrite_lines P ls (written @ out))"

definition append_units_to_periphery_csv ::
  "nat \<Rightarrow> parser \<Rightarrow> string \<Rightarrow> files \<Rightarrow> py_error option \<times> files" where
  \<comment> \<open>the exception that ended the call, if any, and the files when the call is over.
      Opening the output creates it empty; the input is opened after that; an exception,
      of the body of the loop or of the iteration, closes the output with what has been
      written; \<open>shutil.move\<close> is reached only when the loop is over.\<close>
  "append_units_to_periphery_csv n P infile fs =
     (let outfile = infile @ ''.tmp'';
          fs1 = fs(outfile \<mapsto> [])
      in case fs1 infile of
           None \<Rightarrow> (Some FileNotFoundError, fs1)
         | Some content \<Rightarrow>
             (case read_lines n content of
                (ls, stop) \<Rightarrow>
                  (case rewrite_lines P ls [] of
                     (Some e, written) \<Rightarrow> (Some e, fs1(outfile \<mapsto> written))
                   | (None, written) \<Rightarrow>
                       (case stop of
                          Some e \<Rightarrow> (Some e, fs1(outfile \<mapsto> written))
                        | None \<Rightarrow> (None, (fs1(outfile := None))(infile \<mapsto> written))))))"

subsection \<open>The comma-separated list of pyparsing\<close>

text \<open>
  A model of \<open>pyparsing.commaSeparatedList.parseString\<close>, after the grammar of pyparsing 2.4:
  \<^verbatim>\<open>delimitedList(Optional(quotedString.copy() | _commasepitem, default=""))\<close>.
  The tabs of the line are expanded first.  White space (space, tab, newline, carriage
  return) before a field and before a comma is skipped.  A field is a quoted string, with
  its quotes, or a run of printable ASCII characters other than the comma, with spaces and
  tabs inside, or else empty.  Parsing stops, without an error, where no comma follows.
\<close>

fun expandtabs :: "nat \<Rightarrow> string \<Rightarrow> string" where
  \<comment> \<open>\<open>s.expandtabs()\<close> from column \<open>col\<close>, tab stops every 8 columns\<close>
  "expandtabs col [] = []"
| "expandtabs col (c # cs) =
     (if c = CHR 0x09 then replicate (8 - col mod 8) (CHR '' '') @ expandtabs 0 cs
      else if c = CHR 0x0A \<or> c = CHR 0x0D then c # expandtabs 0 cs
      else if is_cont c then c # expandtabs col cs
      else c # expandtabs (Suc col) cs)"

definition printables :: string where
  "printables =
     ''0123456789abcdefghijklmnopqrstuvwxyzABCDEFGHIJKLMNOPQRSTUVWXYZ!#$%&()*+,-./:;<=>?@[]^_`{|}~''
     @ [CHR 0x22, CHR 0x27, CHR 0x5C]"

definition item_char :: "char \<Rightarrow> bool" where
  \<comment> \<open>\<open>Word(printables, excludeChars=',')\<close>\<close>
  "item_char c = (c \<in> set printables \<and> c \<noteq> CHR '','')"

definition blank :: "char \<Rightarrow> bool" where
  \<comment> \<open>\<open>Word(" \t")\<close>\<close>
  "blank c = (c = CHR '' '' \<or> c = CHR 0x09)"

definition white :: "char \<Rightarrow> bool" where
  \<comment> \<open>the white space that pyparsing skips before an element\<close>
  "white c = (c \<in> set [CHR '' '', CHR 0x0A, CHR 0x09, CHR 0x0D])"

definition is_hex :: "char \<Rightarrow> bool" where
  "is_hex c = (c \<in> set ''0123456789abcdefABCDEF'')"

fun quoted_body :: "char \<Rightarrow> string \<Rightarrow> (string \<times> string) option" where
  \<comment> \<open>after the opening quote \<open>q\<close>: the body with the closing quote, and the rest.  The body
      is made of characters other than the quote, newline, carriage return and backslash,
      of doubled quotes, and of a backslash with the character after it (for \<open>\x\<close>, with a
      hexadecimal digit after it).\<close>
  "quoted_body q [] = None"
| "quoted_body q [c] = (if c = q then Some ([c], []) else None)"
| "quoted_body q (c # d # cs) =
     (if c = q then
        (if d = q then map_option (\<lambda>(t, r). (c # d # t, r)) (quoted_body q cs)
         else Some ([c], d # cs))
      else if c = bs then
        (if d = CHR ''x'' \<and> (cs = [] \<or> \<not> is_hex (hd cs)) then None
         else map_option (\<lambda>(t, r). (c # d # t, r)) (quoted_body q cs))
      else if c = CHR 0x0A \<or> c = CHR 0x0D then None
      else map_option (\<lambda>(t, r). (c # t, r)) (quoted_body q (d # cs)))"

definition quotedString :: "string \<Rightarrow> (string \<times> string) option" where
  "quotedString s =
     (case s of
        [] \<Rightarrow> None
      | c # cs \<Rightarrow>
          if c = CHR 0x22 \<or> c = CHR 0x27
          then map_option (\<lambda>(t, r). (c # t, r)) (quoted_body c cs)
          else None)"

function commasepitem :: "string \<Rightarrow> string \<times> string" where
  \<comment> \<open>the repetition inside \<open>_commasepitem\<close>: words of item characters, each with the
      blanks after it when neither a comma nor the end of the line follows them; the text
      matched (empty when there is no word) and the rest\<close>
  "commasepitem s =
     (let w = takeWhile item_char s; r = dropWhile item_char s
      in if w = [] then ([], s)
         else (let sp = takeWhile blank r; r' = dropWhile blank r
               in if sp \<noteq> [] \<and> r' \<noteq> [] \<and> hd r' \<noteq> CHR '','' \<and> hd r' \<noteq> CHR 0x0A
                  then (case commasepitem r' of (t, r'') \<Rightarrow> (w @ sp @ t, r''))
                  else (w, r)))"
  by pat_completeness auto
termination
proof (relation "measure length")
  show "wf (measure length)" by simp
next
  fix s w r sp r'
  assume "w = takeWhile item_char s" and "r = dropWhile item_char s" and "w \<noteq> []"
    and "r' = dropWhile blank r"
  then have "length r' \<le> length r" and "length r < length s"
    by (auto simp: length_dropWhile_le)
       (metis length_append length_greater_0_conv less_add_same_cancel2 takeWhile_dropWhile_id)
  then show "(r', s) \<in> measure length" by simp
qed

definition field :: "string \<Rightarrow> string \<times> string" where
  \<comment> \<open>\<open>Optional(quotedString | _commasepitem, default="")\<close>\<close>
  "field s =
     (let s' = dropWhile white s
      in case quotedString s' of
           Some (t, r) \<Rightarrow> (t, r)
         | None \<Rightarrow> commasepitem s')"

declare commasepitem.simps [simp del]

function comma_list :: "string \<Rightarrow> string list" where
  \<comment> \<open>\<open>delimitedList\<close>: a field, then a comma and a field as long as a comma follows\<close>
  "comma_list s =
     (case field s of
        (t, r) \<Rightarrow>
          (case dropWhile white r of
             [] \<Rightarrow> [t]
           | c # cs \<Rightarrow> if c = CHR '','' then t # comma_list cs else [t]))"
  by pat_completeness auto
termination
proof (relation "measure length")
  show "wf (measure length)" by simp
next
  fix s :: string and t r c cs
  assume f: "(t, r) = field s" and d: "dropWhile white r = c # cs"
  have qb: "length r \<le> length s" if "quoted_body q s = Some (t, r)" for q s t r
    using that
  proof (induction q s arbitrary: t r rule: quoted_body.induct)
    case (1 q)
    then show ?case by simp
  next
    case (2 q c)
    then show ?case by (simp split: if_splits)
  next
    case (3 q c d cs)
    show ?case
    proof (cases "c = q")
      case True
      show ?thesis
      proof (cases "d = q")
        case dq: True
        with True "3.prems" obtain t' where "quoted_body q cs = Some (t', r)" by auto
        from "3.IH"(1) [OF True dq this] show ?thesis by simp
      next
        case False
        with True "3.prems" show ?thesis by simp
      qed
    next
      case cq: False
      show ?thesis
      proof (cases "c = bs")
        case True
        with cq "3.prems" obtain t' where q: "quoted_body q cs = Some (t', r)"
          and n: "\<not> (d = CHR ''x'' \<and> (cs = [] \<or> \<not> is_hex (hd cs)))"
          by (auto split: if_splits)
        from "3.IH"(2) [OF cq True n q] show ?thesis by simp
      next
        case False
        with cq "3.prems" obtain t' where q: "quoted_body q (d # cs) = Some (t', r)"
          and n: "\<not> (c = CHR 0x0A \<or> c = CHR 0x0D)"
          by (auto split: if_splits)
        from "3.IH"(3) [OF cq False n q] show ?thesis by simp
      qed
    qed
  qed
  have ci: "length (snd (commasepitem s)) \<le> length s" for s
  proof (induction s rule: commasepitem.induct)
    case (1 s)
    let ?r = "dropWhile item_char s"
    let ?r' = "dropWhile blank ?r"
    have le: "length ?r' \<le> length s"
      by (meson length_dropWhile_le order_trans)
    show ?case
    proof (cases "takeWhile item_char s \<noteq> [] \<and> takeWhile blank ?r \<noteq> []
        \<and> ?r' \<noteq> [] \<and> hd ?r' \<noteq> CHR '','' \<and> hd ?r' \<noteq> CHR 0x0A")
      case True
      then have "length (snd (commasepitem ?r')) \<le> length ?r'"
        using "1.IH" [OF refl refl _ refl refl] by simp
      with le have "length (snd (commasepitem ?r')) \<le> length s" by simp
      then show ?thesis using True
        by (subst commasepitem.simps) (auto simp: Let_def split: prod.splits)
    next
      case False
      then show ?thesis
        by (subst commasepitem.simps) (auto simp: Let_def length_dropWhile_le)
    qed
  qed
  from f have fs: "field s = (t, r)" by simp
  have "length r \<le> length (dropWhile white s)"
  proof (cases "quotedString (dropWhile white s)")
    case None
    with fs have "r = snd (commasepitem (dropWhile white s))"
      by (simp add: field_def Let_def)
    then show ?thesis using ci by simp
  next
    case (Some p)
    obtain t' r' where p: "p = (t', r')" by (cases p)
    with Some fs have r: "r' = r" by (simp add: field_def Let_def)
    from Some p obtain c' cs' t'' where "dropWhile white s = c' # cs'"
      and "quoted_body c' cs' = Some (t'', r')"
      by (auto simp: quotedString_def split: list.splits if_splits)
    with qb [of c' cs' t'' r'] r show ?thesis by simp
  qed
  then have "length r \<le> length s"
    by (meson length_dropWhile_le order_trans)
  moreover have "length (c # cs) \<le> length r"
    using length_dropWhile_le [of white r] d by simp
  ultimately show "(cs, s) \<in> measure length" by simp
qed

declare comma_list.simps [simp del]

definition commaSeparatedList :: parser where
  \<comment> \<open>\<open>commaSeparatedList.parseString(s).asList()\<close>; the grammar matches every string, so
      no exception is raised\<close>
  "commaSeparatedList s = Inr (comma_list (expandtabs 0 s))"

definition span :: "('a \<Rightarrow> bool) \<Rightarrow> 'a list \<Rightarrow> 'a list \<times> 'a list" where
  \<comment> \<open>both parts of a list cut where the predicate first fails\<close>
  "span P xs = (takeWhile P xs, dropWhile P xs)"


section \<open>Properties of \<open>pick_units\<close>\<close>

subsection \<open>Evaluation and the loops\<close>

lemmas ev = pick_units_def candidates_def guess_def guess_step_def alias_scan_def alias_step_def
  tokens_def is_delim_def fromkeys_def lower_def lower_char_def guess_keywords_def desc_picks_def
  no_unit_values_def strong_guess_limit_def py_tail_def is_cont_def mu_def sq_def

lemma fromkeys_snoc:
  "fromkeys (xs @ [x]) = (if x \<in> set (fromkeys xs) then fromkeys xs else fromkeys xs @ [x])"
  by (simp add: fromkeys_def)

lemma set_fromkeys: "set (fromkeys xs) = set xs"
  by (induction xs rule: rev_induct) (auto simp: fromkeys_snoc, simp add: fromkeys_def)

lemma fromkeys_rev_remdups: "fromkeys xs = rev (remdups (rev xs))"
proof (induction xs rule: rev_induct)
  case Nil
  show ?case by (simp add: fromkeys_def)
next
  case (snoc x xs)
  then show ?case by (simp add: fromkeys_snoc set_fromkeys)
qed

lemma fold_alias_step_none:
  "\<forall>a\<in>set as. a \<notin> set ds \<Longrightarrow> fold (alias_step ds u) as st = st"
  by (induction as arbitrary: st) (auto simp: alias_step_def split: prod.splits)

lemma fold_alias_none:
  "\<forall>(u, as)\<in>set ps. \<forall>a\<in>set as. a \<notin> set ds \<Longrightarrow>
   fold (\<lambda>(u, aliases) st. fold (alias_step ds u) aliases st) ps st = st"
  by (induction ps arbitrary: st) (auto simp: fold_alias_step_none)

lemma alias_scan_none:
  "\<forall>(u, as)\<in>set desc_picks. \<forall>a\<in>set as. a \<notin> set ds \<Longrightarrow> alias_scan ds r = ([], r)"
  unfolding alias_scan_def by (rule fold_alias_none)

lemma guess_step_no_keyword: "k \<notin> set ds \<Longrightarrow> guess_step ds u k unit = unit"
  by (auto simp: guess_step_def Let_def dest: in_set_takeD)

lemma fold_guess_step_none:
  "\<forall>k\<in>set ks. k \<notin> set ds \<Longrightarrow> fold (guess_step ds u) ks unit = unit"
  by (induction ks arbitrary: unit) (auto simp: guess_step_no_keyword)

lemma fold_guess_none:
  "\<forall>(u, ks)\<in>set gk. \<forall>k\<in>set ks. k \<notin> set ds \<Longrightarrow>
   fold (\<lambda>(u, ks) un. fold (guess_step ds u) ks un) gk unit = unit"
  by (induction gk arbitrary: unit) (auto simp: fold_guess_step_none)

lemma fst_fold_alias_step:
  "fst (fold (alias_step ds u) as (unit, r)) = unit @ map (\<lambda>_. u) (filter (\<lambda>a. a \<in> set ds) as)"
  by (induction as arbitrary: unit r) (auto simp: alias_step_def)
lemma pick_units_other:
  "map_of no_unit_values v = None \<Longrightarrow>
   pick_units d v = (join '' '' (fromkeys (candidates d)), snd (alias_scan (tokens d) d))"
  by (simp add: pick_units_def)

lemma alias_scan_not_found: "\<not> alias_found ds \<Longrightarrow> alias_scan ds r = ([], r)"
  by (rule alias_scan_none) (auto simp: alias_found_def)

lemma guess_not_found: "\<not> keyword_found ds \<Longrightarrow> guess ds unit = unit"
  unfolding guess_def by (rule fold_guess_none) (auto simp: keyword_found_def)

subsection \<open>Values that imply no unit\<close>

text \<open>
  Claim C5.  For every description \<open>d\<close>, \<open>pick_units d "N/A"\<close> returns the unit \<open>N/A\<close> and
  \<open>pick_units d ""\<close> returns the empty unit, both with the description \<open>d\<close> itself: the
  function returns before the description is split, scanned for aliases or searched for
  keywords, whatever \<open>d\<close> contains.
\<close>

theorem no_unit_value_short_circuit:
  "pick_units d ''N/A'' = (''N/A'', d) \<and> pick_units d '''' = ('''', d)"
  by (simp add: pick_units_def no_unit_values_def)

subsection \<open>The examples of the specification\<close>

text \<open>
  Claim C1, as the code has it.  For \<open>pick_units "enclosure area of the region" "5"\<close> the
  returned unit is the square micrometre, not the micrometre: \<open>enclosure\<close> is among the
  first two tokens and sets the candidate to the micrometre, and \<open>area\<close> is among the first
  two tokens as well; its unit without the first character, \<open>m\<close> followed by the superscript
  two, differs from \<open>m\<close>, so the strong guess replaces the candidate.  The description
  is returned unchanged.
\<close>

theorem enclosure_area_unit:
  "pick_units ''enclosure area of the region'' ''5'' =
     (mu @ ''m'' @ sq, ''enclosure area of the region'')
   \<and> take strong_guess_limit (map lower (tokens ''enclosure area of the region'')) =
       [''enclosure'', ''area'']
   \<and> py_tail (mu @ ''m'' @ sq) \<notin> set (map py_tail [mu @ ''m''])"
  by (simp add: ev)

theorem enclosure_area_unit_counterexample:
  "fst (pick_units ''enclosure area of the region'' ''5'') \<noteq> mu @ ''m''"
  by (simp add: ev)

text \<open>
  Claim C2, as the code has it.  For \<open>pick_units "spacing is 5um" "5"\<close> no alias is found:
  the tokens are \<open>spacing\<close>, \<open>is\<close> and \<open>5um\<close>, and an alias counts only when it is a whole
  token.  The returned unit is the micrometre all the same, from the keyword \<open>spacing\<close>,
  and the description is returned unchanged.
\<close>

theorem spacing_5um_unit:
  "pick_units ''spacing is 5um'' ''5'' = (mu @ ''m'', ''spacing is 5um'')
   \<and> tokens ''spacing is 5um'' = [''spacing'', ''is'', ''5um'']
   \<and> alias_scan (tokens ''spacing is 5um'') ''spacing is 5um'' = ([], ''spacing is 5um'')"
  by (simp add: ev)

theorem spacing_5um_unit_counterexample:
  "''um'' \<notin> set (tokens ''spacing is 5um'')
   \<and> snd (pick_units ''spacing is 5um'' ''5'') \<noteq> ''spacing is 5'' @ mu @ ''m''"
  by (simp add: ev)

subsection \<open>The unit string\<close>

lemma fst_fold_alias:
  "fst (fold (\<lambda>(u, aliases) st. fold (alias_step ds u) aliases st) ps (unit, r)) =
   unit @ concat (map (\<lambda>(u, as). map (\<lambda>_. u) (filter (\<lambda>a. a \<in> set ds) as)) ps)"
proof (induction ps arbitrary: unit r)
  case Nil
  show ?case by simp
next
  case (Cons p ps)
  obtain u as where p: "p = (u, as)" by (cases p)
  obtain unit' r' where st: "fold (alias_step ds u) as (unit, r) = (unit', r')"
    by (cases "fold (alias_step ds u) as (unit, r)")
  from st have "unit' = unit @ map (\<lambda>_. u) (filter (\<lambda>a. a \<in> set ds) as)"
    using fst_fold_alias_step [of ds u as unit r] by simp
  with Cons.IH [of unit' r'] p st show ?case by simp
qed

lemma fromkeys_append_same:
  "fromkeys (xs @ map (\<lambda>_. u) ys) =
     (if ys = [] \<or> u \<in> set xs then fromkeys xs else fromkeys xs @ [u])"
proof (induction ys rule: rev_induct)
  case Nil
  show ?case by simp
next
  case (snoc y ys)
  have "fromkeys (xs @ map (\<lambda>_. u) (ys @ [y])) = fromkeys ((xs @ map (\<lambda>_. u) ys) @ [u])"
    by simp
  also have "\<dots> = (if u \<in> set (fromkeys (xs @ map (\<lambda>_. u) ys)) then fromkeys (xs @ map (\<lambda>_. u) ys)
                    else fromkeys (xs @ map (\<lambda>_. u) ys) @ [u])"
    by (rule fromkeys_snoc)
  finally show ?case using snoc.IH by (auto simp: set_fromkeys)
qed

lemma fromkeys_grouped:
  "distinct (map fst ps) \<Longrightarrow>
   fromkeys (concat (map (\<lambda>(u, as). map (\<lambda>_. u) (filter P as)) ps)) =
   map fst (filter (\<lambda>(u, as). \<exists>a\<in>set as. P a) ps)"
proof (induction ps rule: rev_induct)
  case Nil
  show ?case by (simp add: fromkeys_def)
next
  case (snoc p ps)
  obtain u as where p: "p = (u, as)" by (cases p)
  from snoc.prems p have d: "distinct (map fst ps)" and u: "u \<notin> fst ` set ps" by auto
  have notin: "u \<notin> set (concat (map (\<lambda>(u, as). map (\<lambda>_. u) (filter P as)) ps))"
    using u by (auto simp: image_iff)
  have e: "(filter P as = []) = (\<not> (\<exists>a\<in>set as. P a))"
    by (auto simp: filter_empty_conv)
  show ?case using snoc.IH [OF d] notin p
    by (simp add: fromkeys_append_same e)
qed

lemma fromkeys_alias_scan: "fromkeys (fst (alias_scan ds r)) = matched_units ds"
proof -
  have "distinct (map fst desc_picks)" by (simp add: desc_picks_def mu_def sq_def)
  then show ?thesis
    unfolding alias_scan_def matched_units_def
    by (simp add: fst_fold_alias fromkeys_grouped)
qed

lemma guess_step_keep:
  "unit \<noteq> [] \<Longrightarrow>
   \<not> (k \<in> set (take strong_guess_limit ds) \<and> py_tail u \<notin> set (map py_tail unit)) \<Longrightarrow>
   guess_step ds u k unit = unit"
  by (auto simp: guess_step_def Let_def)

lemma fold_guess_step_keep:
  "unit \<noteq> [] \<Longrightarrow>
   \<forall>k\<in>set ks. \<not> (k \<in> set (take strong_guess_limit ds) \<and> py_tail u \<notin> set (map py_tail unit)) \<Longrightarrow>
   fold (guess_step ds u) ks unit = unit"
  by (induction ks) (simp_all add: guess_step_keep)

lemma fold_guess_keep:
  "unit \<noteq> [] \<Longrightarrow>
   \<forall>(u, ks)\<in>set gk. \<forall>k\<in>set ks.
      \<not> (k \<in> set (take strong_guess_limit ds) \<and> py_tail u \<notin> set (map py_tail unit)) \<Longrightarrow>
   fold (\<lambda>(u, ks) un. fold (guess_step ds u) ks un) gk unit = unit"
proof (induction gk)
  case Nil
  show ?case by simp
next
  case (Cons p gk)
  obtain u ks where p: "p = (u, ks)" by (cases p)
  from Cons.prems p have
    "\<forall>k\<in>set ks. \<not> (k \<in> set (take strong_guess_limit ds) \<and> py_tail u \<notin> set (map py_tail unit))"
    by auto
  from fold_guess_step_keep [OF Cons.prems(1) this] Cons p show ?case by simp
qed

lemma guess_keep: "unit \<noteq> [] \<Longrightarrow> \<not> strong_applies ds unit \<Longrightarrow> guess ds unit = unit"
  unfolding guess_def by (rule fold_guess_keep) (auto simp: strong_applies_def)

lemma join_has_space: "2 \<le> length xs \<Longrightarrow> CHR '' '' \<in> set (join '' '' xs)"
proof -
  assume "2 \<le> length xs"
  then obtain x y ys where "xs = x # y # ys"
    by (cases xs; cases "tl xs") auto
  then show ?thesis by simp
qed

text \<open>
  Claim C6, as the code has it.  For a value that is not in \<open>no_unit_values\<close>:
  the unit string is the candidate list without its duplicates, every label at the place of
  its first occurrence, joined with single spaces;
  when no alias is a token and no keyword is a lower-cased token, the unit string is empty;
  when aliases of two or more units are tokens and the condition of the strong guess holds
  for no keyword against the labels found, the unit string is the labels of these units,
  in the order of \<open>desc_picks\<close>, joined with single spaces, and so contains a space.
\<close>

theorem unit_string_finalize:
  assumes "map_of no_unit_values v = None"
  shows "fst (pick_units d v) = join '' '' (rev (remdups (rev (candidates d))))
    \<and> (\<not> alias_found (tokens d1) \<and> \<not> keyword_found (map lower (tokens d1))
         \<longrightarrow> fst (pick_units d1 v) = '''')
    \<and> (2 \<le> length (matched_units (tokens d2))
         \<and> \<not> strong_applies (map lower (tokens d2)) (fst (alias_scan (tokens d2) d2))
         \<longrightarrow> fst (pick_units d2 v) = join '' '' (matched_units (tokens d2))
             \<and> CHR '' '' \<in> set (fst (pick_units d2 v)))"
proof (intro conjI impI)
  show "fst (pick_units d v) = join '' '' (rev (remdups (rev (candidates d))))"
    using assms by (simp add: pick_units_other fromkeys_rev_remdups)
next
  assume "\<not> alias_found (tokens d1) \<and> \<not> keyword_found (map lower (tokens d1))"
  then show "fst (pick_units d1 v) = ''''"
    using assms
    by (simp add: pick_units_other candidates_def alias_scan_not_found guess_not_found fromkeys_def)
next
  assume h: "2 \<le> length (matched_units (tokens d2))
     \<and> \<not> strong_applies (map lower (tokens d2)) (fst (alias_scan (tokens d2) d2))"
  have "fst (alias_scan (tokens d2) d2) \<noteq> []"
  proof
    assume "fst (alias_scan (tokens d2) d2) = []"
    then have "fromkeys (fst (alias_scan (tokens d2) d2)) = []" by (simp add: fromkeys_def)
    with h show False by (simp add: fromkeys_alias_scan)
  qed
  with h have "candidates d2 = fst (alias_scan (tokens d2) d2)"
    by (simp add: candidates_def guess_keep)
  then show u: "fst (pick_units d2 v) = join '' '' (matched_units (tokens d2))"
    using assms by (simp add: pick_units_other fromkeys_alias_scan)
  from h show "CHR '' '' \<in> set (fst (pick_units d2 v))"
    by (simp add: u join_has_space)
qed

theorem unit_string_finalize_witness:
  "map_of no_unit_values ''5'' = None
   \<and> fst (pick_units ''width in mm'' ''5'') = ''mm''
   \<and> \<not> alias_found (tokens ''oxide thickness'')
   \<and> \<not> keyword_found (map lower (tokens ''oxide thickness''))
   \<and> fst (pick_units ''oxide thickness'' ''5'') = ''''
   \<and> 2 \<le> length (matched_units (tokens ''pitch mm or um here''))
   \<and> \<not> strong_applies (map lower (tokens ''pitch mm or um here''))
         (fst (alias_scan (tokens ''pitch mm or um here'') ''pitch mm or um here''))
   \<and> fst (pick_units ''pitch mm or um here'' ''5'') = ''mm '' @ mu @ ''m''"
proof -
  have h0: "map_of no_unit_values ''5'' = None" by (simp add: no_unit_values_def)
  have h1: "\<not> alias_found (tokens ''oxide thickness'')"
    by (simp add: alias_found_def desc_picks_def tokens_def is_delim_def)
  have h2: "\<not> keyword_found (map lower (tokens ''oxide thickness''))"
    by (simp add: keyword_found_def guess_keywords_def tokens_def is_delim_def lower_def lower_char_def)
  have h3: "2 \<le> length (matched_units (tokens ''pitch mm or um here''))"
    by (simp add: matched_units_def desc_picks_def tokens_def is_delim_def)
  have h4: "\<not> strong_applies (map lower (tokens ''pitch mm or um here''))
         (fst (alias_scan (tokens ''pitch mm or um here'') ''pitch mm or um here''))"
    by (simp add: strong_applies_def guess_keywords_def tokens_def is_delim_def lower_def
        lower_char_def alias_scan_def alias_step_def desc_picks_def strong_guess_limit_def
        py_tail_def is_cont_def mu_def sq_def)
  have c: "candidates ''width in mm'' = [''mm'']" by (simp add: ev)
  have m: "matched_units (tokens ''pitch mm or um here'') = [''mm'', mu @ ''m'']"
    by (simp add: matched_units_def desc_picks_def tokens_def is_delim_def)
  from unit_string_finalize [OF h0, of "''width in mm''" "''oxide thickness''" "''pitch mm or um here''"]
    h0 h1 h2 h3 h4 c m
  show ?thesis by simp
qed

theorem unit_string_finalize_counterexample:
  "2 \<le> length (matched_units (tokens ''angle mm um''))
   \<and> pick_units ''angle mm um'' ''5'' = (''deg'', ''angle mm '')
   \<and> CHR '' '' \<notin> set (fst (pick_units ''angle mm um'' ''5''))"
  by (simp add: ev matched_units_def)

subsection \<open>The density placeholder\<close>

lemma guess_density:
  assumes "only_keyword ''density'' ds"
  shows "guess ds [] = [[CHR 0x5C, CHR ''-'']]"
proof -
  have in_ds: "''density'' \<in> set ds" using assms by (simp add: only_keyword_def)
  have others: "\<forall>(u, ks)\<in>set (butlast guess_keywords). \<forall>k\<in>set ks. k \<notin> set ds"
    using assms by (auto simp: only_keyword_def guess_keywords_def)
  have split: "guess_keywords = butlast guess_keywords @ [([CHR 0x5C, CHR ''-''], [''density''])]"
    by (simp add: guess_keywords_def)
  have "guess ds [] = fold (guess_step ds [CHR 0x5C, CHR ''-'']) [''density'']
          (fold (\<lambda>(u, ks) un. fold (guess_step ds u) ks un) (butlast guess_keywords) [])"
    unfolding guess_def by (subst split) simp
  also have "\<dots> = guess_step ds [CHR 0x5C, CHR ''-''] ''density'' []"
    using others by (simp add: fold_guess_none)
  also have "\<dots> = [[CHR 0x5C, CHR ''-'']]"
    using in_ds by (simp add: guess_step_def Let_def)
  finally show ?thesis .
qed

text \<open>
  Claim C7.  For a value that is not in \<open>no_unit_values\<close> and a description of which no
  token is an alias and of which \<open>density\<close> is the only keyword among the lower-cased tokens,
  \<open>pick_units\<close> returns as unit the two characters backslash and dash, the label of the
  density keywords, and the description unchanged.
\<close>

theorem density_placeholder:
  assumes "map_of no_unit_values v = None"
    and "\<not> alias_found (tokens d)"
    and "only_keyword ''density'' (map lower (tokens d))"
  shows "pick_units d v = ([CHR 0x5C, CHR ''-''], d)"
  using assms
  by (simp add: pick_units_other candidates_def alias_scan_not_found guess_density fromkeys_def)

theorem density_placeholder_witness:
  "map_of no_unit_values ''0.5'' = None \<and> \<not> alias_found (tokens ''Metal Density, max'')
   \<and> only_keyword ''density'' (map lower (tokens ''Metal Density, max''))
   \<and> pick_units ''Metal Density, max'' ''0.5'' = ([CHR 0x5C, CHR ''-''], ''Metal Density, max'')"
proof -
  have h1: "map_of no_unit_values ''0.5'' = None" by (simp add: no_unit_values_def)
  have h2: "\<not> alias_found (tokens ''Metal Density, max'')"
    by (simp add: alias_found_def desc_picks_def tokens_def is_delim_def)
  have h3: "only_keyword ''density'' (map lower (tokens ''Metal Density, max''))"
    by (simp add: only_keyword_def guess_keywords_def tokens_def is_delim_def lower_def lower_char_def)
  show ?thesis using h1 h2 h3 density_placeholder [OF h1 h2 h3] by simp
qed

subsection \<open>Guessing alone gives one unit\<close>

lemma guess_step_single:
  "unit = [] \<or> (\<exists>w\<in>set us. unit = [w]) \<Longrightarrow> u \<in> set us \<Longrightarrow>
   guess_step ds u k unit = [] \<or> (\<exists>w\<in>set us. guess_step ds u k unit = [w])"
  by (auto simp: guess_step_def Let_def)

lemma fold_guess_step_single:
  "unit = [] \<or> (\<exists>w\<in>set us. unit = [w]) \<Longrightarrow> u \<in> set us \<Longrightarrow>
   fold (guess_step ds u) ks unit = [] \<or> (\<exists>w\<in>set us. fold (guess_step ds u) ks unit = [w])"
proof (induction ks arbitrary: unit)
  case Nil
  then show ?case by simp
next
  case (Cons k ks)
  from guess_step_single [OF Cons.prems] Cons.IH [OF _ Cons.prems(2)]
  show ?case by simp
qed

lemma fold_guess_single:
  "unit = [] \<or> (\<exists>w\<in>set us. unit = [w]) \<Longrightarrow> fst ` set gk \<subseteq> set us \<Longrightarrow>
   fold (\<lambda>(u, ks) un. fold (guess_step ds u) ks un) gk unit = [] \<or>
   (\<exists>w\<in>set us. fold (\<lambda>(u, ks) un. fold (guess_step ds u) ks un) gk unit = [w])"
proof (induction gk arbitrary: unit)
  case Nil
  then show ?case by simp
next
  case (Cons p gk)
  obtain u ks where p: "p = (u, ks)" by (cases p)
  with Cons.prems have u: "u \<in> set us" by auto
  from Cons.prems p have sub: "fst ` set gk \<subseteq> set us" by auto
  from fold_guess_step_single [OF Cons.prems(1) u] Cons.IH [OF _ sub] p
  show ?case by simp
qed

lemma guess_empty_cases:
  "guess ds [] = [] \<or> (\<exists>w\<in>set (map fst guess_keywords). guess ds [] = [w])"
  unfolding guess_def by (rule fold_guess_single) auto

text \<open>
  Claim C9.  For a value that is not in \<open>no_unit_values\<close> and a description of which no
  token is an alias, the unit string is empty or one label of \<open>guess_keywords\<close> (the
  density placeholder among them), and contains no space: both guesses replace the
  candidate list by a list of one label.
\<close>

theorem guess_only_single_unit:
  assumes "map_of no_unit_values v = None" and "\<not> alias_found (tokens d)"
  shows "fst (pick_units d v) \<in> set ('''' # map fst guess_keywords)
         \<and> CHR '' '' \<notin> set (fst (pick_units d v))"
proof -
  have u: "fst (pick_units d v) = join '' '' (fromkeys (guess (map lower (tokens d)) []))"
    using assms by (simp add: pick_units_other candidates_def alias_scan_not_found)
  from guess_empty_cases [of "map lower (tokens d)"]
  have m: "fst (pick_units d v) \<in> set ('''' # map fst guess_keywords)"
    by (force simp: u fromkeys_def)
  have "\<forall>w\<in>set ('''' # map fst guess_keywords). CHR '' '' \<notin> set w"
    by (simp add: guess_keywords_def mu_def sq_def)
  with m show ?thesis by blast
qed

theorem guess_only_single_unit_witness:
  "map_of no_unit_values ''0.13'' = None \<and> \<not> alias_found (tokens ''Min Width of poly'')
   \<and> fst (pick_units ''Min Width of poly'' ''0.13'') = mu @ ''m''"
proof -
  have h1: "map_of no_unit_values ''0.13'' = None" by (simp add: no_unit_values_def)
  have h2: "\<not> alias_found (tokens ''Min Width of poly'')"
    by (simp add: alias_found_def desc_picks_def tokens_def is_delim_def)
  have n: "fst (pick_units ''Min Width of poly'' ''0.13'') \<notin> {'''', ''deg'', mu @ ''m'' @ sq, [CHR 0x5C, CHR ''-'']}"
    by (simp add: ev)
  show ?thesis
    using h1 h2 n guess_only_single_unit [OF h1 h2] by (auto simp: guess_keywords_def)
qed

section \<open>Properties of the markup rewriting\<close>

subsection \<open>\<open>strip_math\<close> returns\<close>

lemmas ev_strip = strip_step_def find_from_def slice_def math_tag_def

lemma startswith_append: "startswith p s \<Longrightarrow> s = p @ drop (length p) s"
  by (induction p arbitrary: s) (auto split: list.splits)

lemma find_Some:
  "find sub s = Some i \<Longrightarrow> s = take i s @ sub @ drop (i + length sub) s"
proof (induction s arbitrary: i)
  case Nil
  then show ?case by (simp split: if_splits)
next
  case (Cons c cs)
  show ?case
  proof (cases "startswith sub (c # cs)")
    case True
    with Cons.prems have "i = 0" by simp
    with startswith_append [OF True] show ?thesis by simp
  next
    case False
    with Cons.prems obtain j where j: "find sub cs = Some j" and i: "i = Suc j" by auto
    from Cons.IH [OF j] i show ?thesis by simp
  qed
qed

lemma find_from_Some:
  assumes "find_from sub start s = Some i"
  shows "start \<le> i \<and> drop start s = slice start i s @ sub @ drop (i + length sub) s"
proof -
  from assms obtain j where j: "find sub (drop start s) = Some j" and i: "i = start + j"
    by (auto simp: find_from_def split: if_splits)
  from find_Some [OF j] i show ?thesis
    by (simp add: slice_def add.commute add.left_commute)
qed

lemma strip_step_Some:
  assumes "strip_step s = Some s'"
  shows "\<exists>a b c. s = a @ math_tag @ b @ ''`'' @ c \<and> s' = a @ b @ c"
proof -
  from assms obtain start stop where
    st: "find math_tag s = Some start" and
    sp: "find_from ''`'' (start + length math_tag) s = Some stop" and
    s': "s' = take start s @ slice (start + length math_tag) stop s @ drop (stop + 1) s"
    by (auto simp: strip_step_def split: option.splits)
  from find_Some [OF st]
  have 1: "s = take start s @ math_tag @ drop (start + length math_tag) s" .
  from find_from_Some [OF sp]
  have 2: "drop (start + length math_tag) s =
             slice (start + length math_tag) stop s @ ''`'' @ drop (stop + 1) s"
    by simp
  from 1 2 have "s = take start s @ math_tag @ slice (start + length math_tag) stop s
                       @ ''`'' @ drop (stop + 1) s"
    by simp
  with s' show ?thesis by blast
qed

lemma strip_step_shorter: "strip_step s = Some s' \<Longrightarrow> length s' + 8 = length s"
  by (drule strip_step_Some) (auto simp: math_tag_def)

lemma strip_math_returns: "\<exists>y. strip_math s = Some y"
proof (induction "length s" arbitrary: s rule: less_induct)
  case less
  show ?case
  proof (cases "strip_step s")
    case None
    then show ?thesis by (subst strip_math.simps) simp
  next
    case (Some s')
    then have "length s' < length s" using strip_step_shorter [of s s'] by simp
    from less [OF this] Some show ?thesis by (subst strip_math.simps) simp
  qed
qed

text \<open>
  Claim C10.  \<open>strip_math\<close> returns on every string.  An iteration of its loop that does
  not return takes one tag \<open>:math:`\<close> and one later backtick out of the string and keeps
  the rest, so the string gets shorter (by eight characters).
\<close>

theorem strip_math_terminates:
  "(\<exists>y. strip_math s = Some y)
   \<and> (strip_step s = Some s' \<longrightarrow>
        (\<exists>a b c. s = a @ math_tag @ b @ ''`'' @ c \<and> s' = a @ b @ c) \<and> length s' < length s)"
  using strip_math_returns [of s] strip_step_Some [of s s'] strip_step_shorter [of s s']
  by auto

theorem strip_math_terminates_witness:
  "strip_step '':math:`A`/:math:`B`'' = Some ''A/:math:`B`''
   \<and> (\<exists>y. strip_math '':math:`A`/:math:`B`'' = Some y)
   \<and> length ''A/:math:`B`'' < length '':math:`A`/:math:`B`''"
proof -
  have h: "strip_step '':math:`A`/:math:`B`'' = Some ''A/:math:`B`''"
    by (simp add: ev_strip)
  from strip_math_terminates [of "'':math:`A`/:math:`B`''" "''A/:math:`B`''"] h
  show ?thesis by blast
qed

subsection \<open>The examples of the rewriting\<close>

lemmas ev_rx = re_search_def re_sub_def match_at_def seq_def is_word_def is_space_def is_ascii_def
  sub_pat_def math_pat_def unit_pat_def value_pat_def bracedmath1_def bracedmath2_def div_sub_def
  diff_sub_def eq_sub_def bs_space_def bs_pipe_def digits_def bs_def is_cont_def strip_def

lemmas ev_patch = patch_line_def patch_template_def patch_sub_def endswith_def slice_to_end_def
  py_len_def strip_math.simps ev_strip Let_def

text \<open>
  A line that ends with its newline, as every line of a file but perhaps the last: the
  line that holds \<open>A\ :sub:`x`\<close> is rewritten to the line that holds \<open>:math:`A_x`\<close>, and the
  line that holds \<open>:math:`A`/:math:`B`\<close> to the line that holds \<open>:math:`\frac{A}{B}`\<close>,
  whatever the Unicode tables say.
\<close>

lemma markup_rewrite_terminated:
  "patch_line U (''A'' @ [bs] @ '' :sub:`x`'' @ [CHR 0x0A]) =
     Some (Inr ('':math:`A_x`'' @ [CHR 0x0A]))
   \<and> patch_line U ('':math:`A`/:math:`B`'' @ [CHR 0x0A]) =
     Some (Inr ('':math:`'' @ [bs] @ ''frac{A}{B}`'' @ [CHR 0x0A]))"
  by (simp add: ev_rx ev_patch)

text \<open>
  Claim C8 says that the line that holds exactly \<open>A\ :sub:`x`\<close> is rewritten to one that
  holds \<open>:math:`A_x`\<close>, and the line that holds exactly \<open>:math:`A`/:math:`B`\<close> to one that
  holds \<open>:math:`\frac{A}{B}`\<close>.  The code does not do this on these very lines, which a
  file has as its last line when it does not end with a newline: the expression rewritten
  ends the line, and the test of the character after it, \<open>line[i]\<close>, raises \<open>IndexError\<close>.
\<close>

theorem markup_rewrite_unterminated:
  "patch_line U (''A'' @ [bs] @ '' :sub:`x`'') = Some (Inl IndexError)
   \<and> patch_line U '':math:`A`/:math:`B`'' = Some (Inl IndexError)"
  by (simp add: ev_rx ev_patch)

section \<open>Properties of the table rewriting\<close>

subsection \<open>Evaluation\<close>

lemmas ev_csv = rewrite_line_def passed_unparsed_def row_rejected_def partition_head_def
  ellipsis_def esc_ellipsis_def bs_def endswith_def DescColumnNo_def ValColumnNo_def
  UnitColumnNo_def Let_def

lemma span_Nil: "span P [] = ([], [])"
  by (simp add: span_def)

lemma span_Cons:
  "span P (x # xs) = (if P x then (case span P xs of (a, b) \<Rightarrow> (x # a, b)) else ([], x # xs))"
  by (simp add: span_def)

lemma commasepitem_eval:
  "commasepitem s =
     (case span item_char s of
        (w, r) \<Rightarrow>
          if w = [] then ([], s)
          else (case span blank r of
                  (sp, r') \<Rightarrow>
                    if sp \<noteq> [] \<and> r' \<noteq> [] \<and> hd r' \<noteq> CHR '','' \<and> hd r' \<noteq> CHR 0x0A
                    then (case commasepitem r' of (t, r'') \<Rightarrow> (w @ sp @ t, r''))
                    else (w, r)))"
  by (subst commasepitem.simps) (simp add: Let_def span_def)

lemmas ev_parser = commaSeparatedList_def comma_list.simps field_def quotedString_def
  commasepitem_eval span_Nil span_Cons item_char_def printables_def blank_def white_def is_hex_def
  is_cont_def bs_def

lemmas ev_read = read_lines_def decode_chunks.simps complete_lines_def byte_def in_range_def
  second_ok_def is_cont_def

subsection \<open>An ordinary row\<close>

text \<open>The first pass appends the unit to the row.\<close>

lemma rule1_parsed:
  "commaSeparatedList (''RULE1,Minimum width,x,0.5'' @ [CHR 0x0A]) =
     Inr [''RULE1'', ''Minimum width'', ''x'', ''0.5'']"
  by (simp add: ev_parser cong: prod.case_cong_weak)

lemma rule1_units: "pick_units ''Minimum width'' ''0.5'' = (mu @ ''m'', ''Minimum width'')"
  by (simp add: ev)

lemma rule1_line:
  "rewrite_line commaSeparatedList (''RULE1,Minimum width,x,0.5'' @ [CHR 0x0A]) =
     Inr (''RULE1,Minimum width,x,0.5,'' @ mu @ ''m'' @ [CHR 0x0A])"
  by (simp add: ev_csv rule1_parsed [simplified] rule1_units [simplified])

subsection \<open>A failed pass\<close>

text \<open>
  Claim C4.  When a call of \<open>append_units_to_periphery_csv\<close> ends with an exception, the
  source file has the bytes it had before the call, and the temporary file is still there:
  it has not been moved over the source.  This holds for every exception of the pass
  (of the parser, of the iteration over a file that is not UTF-8, of a missing file), on
  whatever line, for every parser and every size of the chunks.
\<close>

theorem failed_pass_keeps_source:
  assumes "append_units_to_periphery_csv n P infile fs = (Some e, fs')"
  shows "fs' infile = fs infile \<and> fs' (infile @ ''.tmp'') \<noteq> None"
proof -
  have "infile @ ''.tmp'' \<noteq> infile" by simp
  with assms show ?thesis
    by (auto simp: append_units_to_periphery_csv_def Let_def split: option.splits prod.splits)
qed

lemma not_utf8_read:
  "read_lines 8192
     (''RULE1,Minimum width,x,0.5'' @ [CHR 0x0A] @ ''RULE2,'' @ [CHR 0xFF] @ '',x,1'' @ [CHR 0x0A]) =
     ([], Some UnicodeDecodeError)"
  by (simp add: ev_read)

theorem failed_pass_keeps_source_witness:
  "append_units_to_periphery_csv 8192 commaSeparatedList ''periphery.csv''
     [''periphery.csv'' \<mapsto>
        ''RULE1,Minimum width,x,0.5'' @ [CHR 0x0A] @ ''RULE2,'' @ [CHR 0xFF] @ '',x,1'' @ [CHR 0x0A]]
   = (Some UnicodeDecodeError,
      [''periphery.csv'' \<mapsto>
         ''RULE1,Minimum width,x,0.5'' @ [CHR 0x0A] @ ''RULE2,'' @ [CHR 0xFF] @ '',x,1'' @ [CHR 0x0A],
       ''periphery.csv.tmp'' \<mapsto> []])
   \<and> [''periphery.csv'' \<mapsto>
         ''RULE1,Minimum width,x,0.5'' @ [CHR 0x0A] @ ''RULE2,'' @ [CHR 0xFF] @ '',x,1'' @ [CHR 0x0A],
       ''periphery.csv.tmp'' \<mapsto> []] ''periphery.csv''
     = Some (''RULE1,Minimum width,x,0.5'' @ [CHR 0x0A] @ ''RULE2,'' @ [CHR 0xFF] @ '',x,1''
              @ [CHR 0x0A])"
proof -
  have h: "append_units_to_periphery_csv 8192 commaSeparatedList ''periphery.csv''
     [''periphery.csv'' \<mapsto>
        ''RULE1,Minimum width,x,0.5'' @ [CHR 0x0A] @ ''RULE2,'' @ [CHR 0xFF] @ '',x,1'' @ [CHR 0x0A]]
   = (Some UnicodeDecodeError,
      [''periphery.csv'' \<mapsto>
         ''RULE1,Minimum width,x,0.5'' @ [CHR 0x0A] @ ''RULE2,'' @ [CHR 0xFF] @ '',x,1'' @ [CHR 0x0A],
       ''periphery.csv.tmp'' \<mapsto> []])"
    by (simp add: append_units_to_periphery_csv_def Let_def not_utf8_read [simplified])
  from failed_pass_keeps_source [OF h] h show ?thesis by simp
qed

text \<open>
  With chunks of 32 bytes, smaller than those of the \<open>io\<close> library, the same failure comes
  after the first row has been written: the temporary file holds that row, and the source is
  as it was.
\<close>

lemma not_utf8_read_later:
  "read_lines 32
     (''RULE1,Minimum width,x,0.5'' @ [CHR 0x0A] @ ''RULE2,Minimum spacing,x,'' @ [CHR 0xFF]
        @ [CHR 0x0A]) =
     ([''RULE1,Minimum width,x,0.5'' @ [CHR 0x0A]], Some UnicodeDecodeError)"
  by (simp add: ev_read)

lemma failed_pass_after_first_row:
  "append_units_to_periphery_csv 32 commaSeparatedList ''periphery.csv''
     [''periphery.csv'' \<mapsto>
        ''RULE1,Minimum width,x,0.5'' @ [CHR 0x0A] @ ''RULE2,Minimum spacing,x,'' @ [CHR 0xFF]
          @ [CHR 0x0A]]
   = (Some UnicodeDecodeError,
      [''periphery.csv'' \<mapsto>
         ''RULE1,Minimum width,x,0.5'' @ [CHR 0x0A] @ ''RULE2,Minimum spacing,x,'' @ [CHR 0xFF]
           @ [CHR 0x0A],
       ''periphery.csv.tmp'' \<mapsto> ''RULE1,Minimum width,x,0.5,'' @ mu @ ''m'' @ [CHR 0x0A]])"
  by (simp add: append_units_to_periphery_csv_def Let_def not_utf8_read_later [simplified]
      rule1_line [simplified] mu_def)

text \<open>
  A file that is not UTF-8 always ends the call with an exception: the lines iterated
  before the bytes at fault are rewritten, and then the exception of the iteration is
  raised, unless a line has raised before.
\<close>

lemma decode_error_raises:
  assumes "fs infile = Some content" and "snd (read_lines n content) \<noteq> None"
  shows "fst (append_units_to_periphery_csv n P infile fs) \<noteq> None"
proof -
  have "infile @ ''.tmp'' \<noteq> infile" by simp
  with assms show ?thesis
    by (auto simp: append_units_to_periphery_csv_def Let_def split: option.splits prod.splits)
qed

subsection \<open>A second pass\<close>

lemma rewrite_line_field_count:
  assumes "P (replace ellipsis esc_ellipsis l) = Inr fs" and "fs \<noteq> []" and "length fs \<noteq> 4"
  shows "rewrite_line P l = Inr l"
proof -
  from assms(2) obtain f0 fs' where fs: "fs = f0 # fs'" by (cases fs) auto
  with assms(3) have "length fs' \<noteq> 3" by auto
  with assms(1) fs show ?thesis
    by (simp add: rewrite_line_def row_rejected_def UnitColumnNo_def Let_def)
qed

text \<open>
  The ordinary row again: the parser reads five fields from the line that the first pass has
  written, and the second pass writes that line as it is.
\<close>

lemma rule1_parsed_again:
  "commaSeparatedList
     (replace ellipsis esc_ellipsis (''RULE1,Minimum width,x,0.5,'' @ mu @ ''m'' @ [CHR 0x0A])) =
     Inr [''RULE1'', ''Minimum width'', ''x'', ''0.5'', []]"
  by (simp add: ev_parser ellipsis_def esc_ellipsis_def mu_def cong: prod.case_cong_weak)

lemma rule1_line_again:
  "rewrite_line commaSeparatedList (''RULE1,Minimum width,x,0.5,'' @ mu @ ''m'' @ [CHR 0x0A]) =
     Inr (''RULE1,Minimum width,x,0.5,'' @ mu @ ''m'' @ [CHR 0x0A])"
  using rewrite_line_field_count [of commaSeparatedList
      "''RULE1,Minimum width,x,0.5,'' @ mu @ ''m'' @ [CHR 0x0A]"
      "[''RULE1'', ''Minimum width'', ''x'', ''0.5'', []]"]
    rule1_parsed_again
  by simp

text \<open>
  The row below is another matter.  Its description \<open>mm"a_mm\<close> ends with the alias \<open>mm\<close>;
  \<open>replace\<close> takes the alias out of the description everywhere, not only at its end, and
  the description left, \<open>"a_\<close>, starts with a quote.
\<close>

lemma quoted_parsed:
  "commaSeparatedList (''R,mm'' @ [CHR 0x22] @ ''a_mm,c'' @ [CHR 0x22] @ '',e'' @ [CHR 0x0A]) =
     Inr [''R'', ''mm'' @ [CHR 0x22] @ ''a_mm'', ''c'' @ [CHR 0x22], ''e'']"
  by (simp add: ev_parser cong: prod.case_cong_weak)

lemma quoted_units:
  "pick_units (''mm'' @ [CHR 0x22] @ ''a_mm'') ''e'' = (''mm'', [CHR 0x22] @ ''a_'')"
  by (simp add: ev)

lemma quoted_line:
  "rewrite_line commaSeparatedList
     (''R,mm'' @ [CHR 0x22] @ ''a_mm,c'' @ [CHR 0x22] @ '',e'' @ [CHR 0x0A]) =
     Inr (''R,'' @ [CHR 0x22] @ ''a_,c'' @ [CHR 0x22] @ '',e,mm'' @ [CHR 0x0A])"
  by (simp add: ev_csv quoted_parsed [simplified] quoted_units [simplified])

lemma quoted_parsed_again:
  "commaSeparatedList (''R,'' @ [CHR 0x22] @ ''a_,c'' @ [CHR 0x22] @ '',e,mm'' @ [CHR 0x0A]) =
     Inr [''R'', [CHR 0x22] @ ''a_,c'' @ [CHR 0x22], ''e'', ''mm'']"
  by (simp add: ev_parser cong: prod.case_cong_weak)

lemma quoted_units_again:
  "pick_units ([CHR 0x22] @ ''a_,c'' @ [CHR 0x22]) ''mm'' = ([], [CHR 0x22] @ ''a_,c'' @ [CHR 0x22])"
  by (simp add: ev)

lemma quoted_line_again:
  "rewrite_line commaSeparatedList
     (''R,'' @ [CHR 0x22] @ ''a_,c'' @ [CHR 0x22] @ '',e,mm'' @ [CHR 0x0A]) =
     Inr (''R,'' @ [CHR 0x22] @ ''a_,c'' @ [CHR 0x22] @ '',e,mm,'' @ [CHR 0x0A])"
  by (simp add: ev_csv quoted_parsed_again [simplified] quoted_units_again [simplified])

text \<open>
  Claim C3 says that a second pass writes every line of the first as it is: the lines the
  first pass rejected are rejected again, and the lines it gave a unit have five fields
  and fail the test on the number of fields.  The code does not do this on the line
  \<open>R,mm"a_mm,c",e\<close>.  The first pass writes \<open>R,"a_,c",e,mm\<close>; in the second pass the parser
  reads \<open>"a_,c"\<close> as one quoted field, so the line has 4 fields, passes the test, and a
  second unit (empty) is appended to it: \<open>R,"a_,c",e,mm,\<close> is written in its place.
\<close>

theorem second_pass_appends_again:
  "rewrite_line commaSeparatedList
     (''R,mm'' @ [CHR 0x22] @ ''a_mm,c'' @ [CHR 0x22] @ '',e'' @ [CHR 0x0A]) =
     Inr (''R,'' @ [CHR 0x22] @ ''a_,c'' @ [CHR 0x22] @ '',e,mm'' @ [CHR 0x0A])
   \<and> commaSeparatedList (''R,'' @ [CHR 0x22] @ ''a_,c'' @ [CHR 0x22] @ '',e,mm'' @ [CHR 0x0A]) =
     Inr [''R'', [CHR 0x22] @ ''a_,c'' @ [CHR 0x22], ''e'', ''mm'']
   \<and> rewrite_line commaSeparatedList
     (''R,'' @ [CHR 0x22] @ ''a_,c'' @ [CHR 0x22] @ '',e,mm'' @ [CHR 0x0A]) =
     Inr (''R,'' @ [CHR 0x22] @ ''a_,c'' @ [CHR 0x22] @ '',e,mm,'' @ [CHR 0x0A])
   \<and> ''R,'' @ [CHR 0x22] @ ''a_,c'' @ [CHR 0x22] @ '',e,mm,'' @ [CHR 0x0A]
       \<noteq> ''R,'' @ [CHR 0x22] @ ''a_,c'' @ [CHR 0x22] @ '',e,mm'' @ [CHR 0x0A]"
  using quoted_line quoted_parsed_again quoted_line_again by simp

end
